theory Spec2Isabelle
  imports Main
begin

section \<open>The locking queue of \<open>boost/locking_queue.hpp\<close>\<close>

subsection \<open>Data\<close>

text \<open>
  The class \<open>locking_queue<T, Container>\<close> has three members: the underlying
  \<open>container\<close> (a \<open>std::queue<T>\<close> by default), a \<open>mutex\<close> and the condition variable
  \<open>non_empty_cond\<close>. The container is a list whose head is the front of the queue
  (\<open>front()\<close> reads the head, \<open>pop()\<close> drops it, \<open>push(x)\<close> appends at the end). The mutex
  and the condition variable hold no data: what they do to the calling thread is
  written into the operations below (who may change the container while the lock is
  released, and when a wait returns).
\<close>

record 'a locking_queue =
  container :: "'a list"

text \<open>\<open>class queue_empty {}\<close>: the only exception type the class declares.\<close>

datatype queue_error = queue_empty

text \<open>
  How a member function call ends: it returns a value and leaves a queue state, it
  throws and leaves a queue state, it runs \<open>container.front()\<close> and \<open>container.pop()\<close>
  on an empty \<open>std::queue\<close> (undefined behaviour in C++: no value and no state can be
  promised), or it stays suspended in a wait that is never woken.
\<close>

datatype ('r, 's) outcome =
    Returns 'r 's
  | Throws queue_error 's
  | Undefined_Behaviour
  | Waits_Forever

subsection \<open>Other threads\<close>

text \<open>
  While the calling thread is suspended in \<open>wait\<close> or \<open>timed_wait\<close> the lock is
  released, and other threads complete operations on the same queue: a \<open>push\<close>, or a
  \<open>pop\<close> (which removes the head; a non-blocking \<open>pop\<close> that finds the queue empty
  throws and changes nothing).
\<close>

datatype 'a other_op = Other_push 'a | Other_pop

fun other_step :: "'a list \<Rightarrow> 'a other_op \<Rightarrow> 'a list" where
  "other_step c (Other_push v) = c @ [v]"
| "other_step [] Other_pop = []"
| "other_step (x # c) Other_pop = c"

definition interfere :: "'a other_op list \<Rightarrow> 'a list \<Rightarrow> 'a list" where
  "interfere ops c = foldl other_step c ops"

text \<open>
  One return of a wait: \<open>timed_out\<close> says that \<open>timed_wait\<close> returned \<open>false\<close> (the time
  was reached); otherwise the thread was notified or woken spuriously. \<open>others\<close> are the
  operations other threads completed between the release of the lock and its
  re-acquisition. The plain \<open>wait\<close> has no result, so it does not read \<open>timed_out\<close>.
\<close>

datatype 'a wake = Wake (timed_out: bool) (others: "'a other_op list")

subsection \<open>Construction\<close>

text \<open>\<open>locking_queue() : container(), mutex(), non_empty_cond() {}\<close>\<close>

definition locking_queue_new :: "'a locking_queue" where
  "locking_queue_new = \<lparr>container = []\<rparr>"

text \<open>\<open>explicit locking_queue(const container_type& other) : container(other), ...\<close>\<close>

definition locking_queue_of :: "'a list \<Rightarrow> 'a locking_queue" where
  "locking_queue_of other = \<lparr>container = other\<rparr>"

subsection \<open>Observers and push\<close>

text \<open>\<open>bool empty() const { lock_guard guard(mutex); return container.empty(); }\<close>\<close>

definition empty_lq :: "'a locking_queue \<Rightarrow> bool" where
  "empty_lq q = (container q = [])"

text \<open>\<open>size_type size() const { lock_guard guard(mutex); return container.size(); }\<close>\<close>

definition size_lq :: "'a locking_queue \<Rightarrow> nat" where
  "size_lq q = length (container q)"

text \<open>
  \<open>void push(const value_type& element)\<close>: \<open>container.push(element)\<close>, then
  \<open>non_empty_cond.notify_one()\<close>, under the lock.
\<close>

definition push :: "'a \<Rightarrow> 'a locking_queue \<Rightarrow> 'a locking_queue" where
  "push element q = q\<lparr>container := container q @ [element]\<rparr>"

subsection \<open>pop\<close>

text \<open>
  The loop of lines 116 to 125, run by \<open>pop\<close> when \<open>block\<close> is true:
  \<^verbatim>\<open>
  while (!container.empty()) {
      if (timeout > 0) {
          if (!non_empty_cond.timed_wait(lock, boost::posix_time::seconds(timeout)))
              throw queue_empty();
      } else {
          non_empty_cond.wait(lock);
      }
  }
  \<close>
  The list of wakes is what the waits of this call return while other threads act on
  the queue, in order. When it is exhausted nothing wakes the thread any more: a plain
  \<open>wait\<close> never returns, and a \<open>timed_wait\<close> returns \<open>false\<close> once \<open>timeout\<close> seconds
  have passed, with the container as it was. Every \<open>timed_wait\<close> is given the whole
  \<open>timeout\<close> again.
\<close>

fun wait_loop ::
  "int \<Rightarrow> 'a wake list \<Rightarrow> 'a locking_queue \<Rightarrow> (unit, 'a locking_queue) outcome" where
  "wait_loop timeout [] q =
     (if \<not> (container q = []) then
        (if timeout > 0 then Throws queue_empty q else Waits_Forever)
      else Returns () q)"
| "wait_loop timeout (w # ws) q =
     (if \<not> (container q = []) then
        (let q' = q\<lparr>container := interfere (others w) (container q)\<rparr> in
         if timeout > 0 then
           (if timed_out w then Throws queue_empty q' else wait_loop timeout ws q')
         else wait_loop timeout ws q')
      else Returns () q)"

text \<open>
  Lines 132 to 135: \<open>value_type element(container.front()); container.pop();
  return element;\<close>. On an empty \<open>std::queue\<close> both calls are undefined behaviour.
\<close>

definition take_front :: "'a locking_queue \<Rightarrow> ('a, 'a locking_queue) outcome" where
  "take_front q =
     (case container q of
        [] \<Rightarrow> Undefined_Behaviour
      | element # rest \<Rightarrow> Returns element (q\<lparr>container := rest\<rparr>))"

text \<open>\<open>value_type pop(bool block = false, int timeout = 0)\<close>\<close>

definition pop ::
  "bool \<Rightarrow> int \<Rightarrow> 'a wake list \<Rightarrow> 'a locking_queue \<Rightarrow> ('a, 'a locking_queue) outcome" where
  "pop block timeout ws q =
     (if block then
        (case wait_loop timeout ws q of
           Returns u q' \<Rightarrow> take_front q'
         | Throws e q' \<Rightarrow> Throws e q'
         | Undefined_Behaviour \<Rightarrow> Undefined_Behaviour
         | Waits_Forever \<Rightarrow> Waits_Forever)
      else if container q = [] then Throws queue_empty q
      else take_front q)"

subsection \<open>Calls and sequences of calls\<close>

text \<open>
  The public interface as one step function, so that what a call returns and the state
  it leaves can be stated for all four member functions alike. \<open>empty\<close> and \<open>size\<close> are
  \<open>const\<close>: they leave the queue as it is. \<open>push\<close> returns \<open>void\<close>. None of the three
  contains a \<open>throw\<close>.
\<close>

datatype 'a call = Call_empty | Call_size | Call_push 'a | Call_pop bool int "'a wake list"

datatype 'a reply = Reply_bool bool | Reply_size nat | Reply_void | Reply_value 'a

fun exec :: "'a call \<Rightarrow> 'a locking_queue \<Rightarrow> ('a reply, 'a locking_queue) outcome" where
  "exec Call_empty q = Returns (Reply_bool (empty_lq q)) q"
| "exec Call_size q = Returns (Reply_size (size_lq q)) q"
| "exec (Call_push v) q = Returns Reply_void (push v q)"
| "exec (Call_pop block timeout ws) q =
     (case pop block timeout ws q of
        Returns element q' \<Rightarrow> Returns (Reply_value element) q'
      | Throws e q' \<Rightarrow> Throws e q'
      | Undefined_Behaviour \<Rightarrow> Undefined_Behaviour
      | Waits_Forever \<Rightarrow> Waits_Forever)"

text \<open>
  A thread making calls one after the other, as the test cases do: the replies are
  collected, and the first call that does not return ends the run.
\<close>

fun run ::
  "'a call list \<Rightarrow> 'a locking_queue \<Rightarrow> ('a reply list, 'a locking_queue) outcome" where
  "run [] q = Returns [] q"
| "run (c # cs) q =
     (case exec c q of
        Returns r q' \<Rightarrow>
          (case run cs q' of
             Returns rs q'' \<Rightarrow> Returns (r # rs) q''
           | Throws e q'' \<Rightarrow> Throws e q''
           | Undefined_Behaviour \<Rightarrow> Undefined_Behaviour
           | Waits_Forever \<Rightarrow> Waits_Forever)
      | Throws e q' \<Rightarrow> Throws e q'
      | Undefined_Behaviour \<Rightarrow> Undefined_Behaviour
      | Waits_Forever \<Rightarrow> Waits_Forever)"

section \<open>Properties\<close>

subsection \<open>Auxiliary facts\<close>

text \<open>The loop is left only through its condition, that is with an empty container.\<close>

lemma wait_loop_exit: "wait_loop timeout ws q = Returns u q' \<Longrightarrow> container q' = []"
  by (induction timeout ws q rule: wait_loop.induct) (auto simp: Let_def split: if_splits)

lemma pop_block_never_returns: "pop True timeout ws q \<noteq> Returns x q'"
  by (auto simp: pop_def take_front_def split: outcome.splits list.splits
      dest: wait_loop_exit)

lemma run_append:
  "run (cs @ ds) q =
     (case run cs q of
        Returns rs q' \<Rightarrow>
          (case run ds q' of
             Returns rs' q'' \<Rightarrow> Returns (rs @ rs') q''
           | Throws e q'' \<Rightarrow> Throws e q''
           | Undefined_Behaviour \<Rightarrow> Undefined_Behaviour
           | Waits_Forever \<Rightarrow> Waits_Forever)
      | Throws e q' \<Rightarrow> Throws e q'
      | Undefined_Behaviour \<Rightarrow> Undefined_Behaviour
      | Waits_Forever \<Rightarrow> Waits_Forever)"
  by (induction cs arbitrary: q) (auto split: outcome.splits)

lemma run_pushes:
  "run (map Call_push vs) q =
     Returns (replicate (length vs) Reply_void) (q\<lparr>container := container q @ vs\<rparr>)"
  by (induction vs arbitrary: q) (auto simp: push_def)

lemma run_pops:
  "container q = vs @ rest \<Longrightarrow>
   run (replicate (length vs) (Call_pop False timeout ws)) q =
     Returns (map Reply_value vs) (q\<lparr>container := rest\<rparr>)"
  by (induction vs arbitrary: q) (auto simp: pop_def take_front_def)

subsection \<open>Non-blocking pop\<close>

text \<open>
  C4: \<open>pop\<close> with \<open>block = false\<close> on an empty queue throws \<open>queue_empty\<close> at once,
  whatever the timeout (and whatever waits would have returned: it never waits), and
  leaves the queue as it was; on a non-empty queue it removes the head element and
  returns it.
\<close>

theorem pop_non_blocking:
  "pop False timeout ws (q\<lparr>container := []\<rparr>) = Throws queue_empty (q\<lparr>container := []\<rparr>)
   \<and> pop False timeout ws (q\<lparr>container := x # xs\<rparr>) = Returns x (q\<lparr>container := xs\<rparr>)"
  by (simp add: pop_def take_front_def)

subsection \<open>Blocking pop\<close>

text \<open>
  C1 (the code does otherwise): the claim is that the wait loop leads to the removal
  only with a non-empty queue. The loop condition of line 116 is
  \<open>!container.empty()\<close>, so on an empty queue a blocking \<open>pop\<close> does not wait at all: the
  loop is left at once, with the container still empty, and \<open>container.front()\<close> and
  \<open>container.pop()\<close> run on the empty container, for every timeout.
\<close>

theorem pop_blocking_on_empty:
  "wait_loop timeout ws (q\<lparr>container := []\<rparr>) = Returns () (q\<lparr>container := []\<rparr>)
   \<and> pop True timeout ws (q\<lparr>container := []\<rparr>) = Undefined_Behaviour"
  by (cases ws) (simp_all add: pop_def take_front_def)

text \<open>
  C2 (the code does otherwise): the claim is that \<open>pop\<close> with \<open>block = true\<close> and
  \<open>timeout <= 0\<close> waits until the queue is non-empty and then returns the head. In the
  code a blocking \<open>pop\<close> returns no element at all, whatever the timeout, the waits and
  the queue; with \<open>timeout = 0\<close> and an element in the queue it waits although the
  element is there, and when no wake-up comes it waits for ever.
\<close>

theorem pop_blocking_untimed:
  "pop True timeout ws q \<noteq> Returns element q'
   \<and> pop True 0 [] (q\<lparr>container := x # xs\<rparr>) = Waits_Forever
   \<and> pop True 0 [Wake False []] (q\<lparr>container := x # xs\<rparr>) = Waits_Forever"
  using pop_block_never_returns [of timeout ws q element q']
  by (simp add: pop_def interfere_def)

text \<open>
  C3 (the code does otherwise): the claim is that \<open>pop\<close> with \<open>block = true\<close> and
  \<open>timeout > 0\<close> returns the head once the queue is non-empty and throws only when the
  time has passed with the queue empty. In the code, with \<open>timeout = 5\<close> and a queue that
  holds \<open>x\<close> all along, \<open>pop\<close> throws \<open>queue_empty\<close> when the timed wait times out (also
  after an earlier wake-up, each wait being given the whole five seconds again, and
  also when nothing wakes it at all) and leaves \<open>x\<close> in the queue; and when another
  thread removes \<open>x\<close> in the meantime it goes on to read the front of the empty
  container.
\<close>

theorem pop_blocking_timed:
  "pop True 5 (Wake True [] # ws) (q\<lparr>container := x # xs\<rparr>)
     = Throws queue_empty (q\<lparr>container := x # xs\<rparr>)
   \<and> pop True 5 (Wake False [] # Wake True [] # ws) (q\<lparr>container := x # xs\<rparr>)
     = Throws queue_empty (q\<lparr>container := x # xs\<rparr>)
   \<and> pop True 5 [] (q\<lparr>container := x # xs\<rparr>)
     = Throws queue_empty (q\<lparr>container := x # xs\<rparr>)
   \<and> pop True 5 (Wake False [Other_pop] # ws) (q\<lparr>container := [x]\<rparr>) = Undefined_Behaviour"
  by (cases ws) (simp_all add: pop_def take_front_def interfere_def)

subsection \<open>Order and effect\<close>

text \<open>
  C5: pushing \<open>v1, ..., vn\<close> into a newly constructed queue and then calling the
  non-blocking \<open>pop\<close> \<open>n\<close> times returns \<open>v1, ..., vn\<close> in this order (and leaves the queue
  empty).
\<close>

theorem fifo_order:
  "run (map Call_push vs @ replicate (length vs) (Call_pop False timeout ws)) locking_queue_new
     = Returns (replicate (length vs) Reply_void @ map Reply_value vs) locking_queue_new"
proof -
  let ?q = "locking_queue_new\<lparr>container := container locking_queue_new @ vs\<rparr>"
  have "container ?q = vs @ []"
    by (simp add: locking_queue_new_def)
  then have "run (replicate (length vs) (Call_pop False timeout ws)) ?q
      = Returns (map Reply_value vs) (?q\<lparr>container := []\<rparr>)"
    by (rule run_pops)
  moreover have "?q\<lparr>container := []\<rparr> = locking_queue_new"
    by (simp add: locking_queue_new_def)
  ultimately show ?thesis
    by (simp add: run_append run_pushes)
qed

text \<open>
  C6 (the code does otherwise): the claim is that a \<open>pop\<close> either returns, having
  removed the head and nothing else, or fails with \<open>queue_empty\<close> and leaves the
  elements as they were. A blocking \<open>pop\<close> on an empty queue does neither: the loop of
  line 116 is not entered, nothing is thrown, and lines 132 to 135 run to
  \<open>return element\<close> on a container that has no head to remove, for every timeout and
  whatever other threads would have done. What the caller gets back and what a later
  \<open>size()\<close> returns cannot be promised.
\<close>

theorem pop_blocking_empty_effect:
  "pop True timeout ws locking_queue_new = Undefined_Behaviour
   \<and> pop True timeout ws locking_queue_new \<noteq> Throws queue_empty locking_queue_new
   \<and> pop True timeout ws locking_queue_new \<noteq> Returns x q'
   \<and> run [Call_pop True timeout ws, Call_size] locking_queue_new = Undefined_Behaviour"
  by (cases ws) (simp_all add: pop_def take_front_def locking_queue_new_def)

text \<open>
  C7: a queue constructed from the container \<open>[a, b, c]\<close> has size 3, is not empty, and
  its first non-blocking \<open>pop\<close> returns \<open>a\<close>; the constructor copies the container as it
  is.
\<close>

theorem seed_from_container:
  "size_lq (locking_queue_of [a, b, c]) = 3
   \<and> empty_lq (locking_queue_of [a, b, c]) = False
   \<and> pop False timeout ws (locking_queue_of [a, b, c]) = Returns a (locking_queue_of [b, c])
   \<and> container (locking_queue_of other) = other"
  by (simp add: size_lq_def empty_lq_def pop_def take_front_def locking_queue_of_def)

text \<open>
  C8: after \<open>k\<close> pushes into a newly constructed queue followed by \<open>k\<close> (non-blocking)
  pops, \<open>empty()\<close> returns true and \<open>size()\<close> returns 0; \<open>k\<close> is the length of \<open>vs\<close>.
\<close>

theorem empty_after_drain:
  "run (map Call_push vs @ replicate (length vs) (Call_pop False timeout ws)
          @ [Call_empty, Call_size]) locking_queue_new
     = Returns (replicate (length vs) Reply_void @ map Reply_value vs
          @ [Reply_bool True, Reply_size 0]) locking_queue_new"
proof -
  let ?q = "locking_queue_new\<lparr>container := container locking_queue_new @ vs\<rparr>"
  have pushed: "run (map Call_push vs) locking_queue_new
      = Returns (replicate (length vs) Reply_void) ?q"
    by (rule run_pushes)
  have "container ?q = vs @ []"
    by (simp add: locking_queue_new_def)
  then have "run (replicate (length vs) (Call_pop False timeout ws)) ?q
      = Returns (map Reply_value vs) (?q\<lparr>container := []\<rparr>)"
    by (rule run_pops)
  moreover have "?q\<lparr>container := []\<rparr> = locking_queue_new"
    by (simp add: locking_queue_new_def)
  ultimately have popped: "run (replicate (length vs) (Call_pop False timeout ws)) ?q
      = Returns (map Reply_value vs) locking_queue_new"
    by simp
  have observed: "run [Call_empty, Call_size] locking_queue_new
      = Returns [Reply_bool True, Reply_size 0] (locking_queue_new :: 'a locking_queue)"
    by (simp add: locking_queue_new_def empty_lq_def size_lq_def)
  show ?thesis
    by (simp only: run_append pushed popped observed outcome.case append_assoc)
qed

subsection \<open>The operations other than pop\<close>

text \<open>
  C9: \<open>push\<close> appends the value at the end of the container and returns; \<open>empty\<close> and
  \<open>size\<close> return; and a call that does not return (that throws, or worse) is a call of
  \<open>pop\<close>. \<open>queue_empty\<close> is the only error there is.
\<close>

theorem non_pop_total:
  "exec (Call_push v) q = Returns Reply_void (q\<lparr>container := container q @ [v]\<rparr>)
   \<and> exec Call_empty q = Returns (Reply_bool (container q = [])) q
   \<and> exec Call_size q = Returns (Reply_size (length (container q))) q
   \<and> ((\<forall>r q'. exec c q \<noteq> Returns r q') \<longrightarrow> (\<exists>block timeout ws. c = Call_pop block timeout ws))"
  by (cases c) (simp_all add: push_def empty_lq_def size_lq_def)

theorem non_pop_total_witness:
  "(\<forall>r q'. exec (Call_pop False 0 []) (locking_queue_new :: nat locking_queue) \<noteq> Returns r q')
   \<and> (\<exists>block timeout ws. (Call_pop False 0 [] :: nat call) = Call_pop block timeout ws)"
  using non_pop_total [of _ "locking_queue_new :: nat locking_queue" "Call_pop False 0 []"]
  by (simp add: pop_def locking_queue_new_def)

text \<open>
  C10: in every queue state \<open>empty()\<close> returns true exactly when \<open>size()\<close> returns 0, and
  calling the two leaves the queue as it was.
\<close>

theorem observers_agree:
  "empty_lq q = (size_lq q = 0)
   \<and> run [Call_empty, Call_size] q
       = Returns [Reply_bool (size_lq q = 0), Reply_size (size_lq q)] q"
  by (simp add: empty_lq_def size_lq_def)

end
